theory Spec2Isabelle
  imports Complex_Main
begin

section \<open>Python values\<close>

text \<open>
  The exceptions the agents of \<^verbatim>\<open>code/agent.py\<close> can raise. A function that may raise
  returns \<open>pyerror + 'a\<close>, with \<open>Inl\<close> for the exception. Every exception of the modelled
  methods is raised before the method mutates its object, so \<open>Inl\<close> also means that the
  object is as it was (the one exception, a lookup failing in the middle of a sweep of
  \<open>ValueIterationSolver.learn\<close>, is noted there).
\<close>

datatype pyerror = TypeError | ValueError | IndexError | NotImplementedError

text \<open>
  The two kinds of object that reach \<^verbatim>\<open>xrange\<close> in the source: an integer, and the sequence
  of actions an environment returns.
\<close>

datatype pyobj = PyInt int | PyList "int list"

text \<open>
  Python floats. The source writes \<^verbatim>\<open>-float('inf')\<close> itself, so the two infinities and
  NaN are values of the model, with the IEEE 754 rules for them. Finite values are
  idealised as reals: rounding and overflow of finite arithmetic are not modelled.
\<close>

datatype pyfloat = NaN | NInf | Fin real | PInf

fun fl_neg :: "pyfloat \<Rightarrow> pyfloat" where
  "fl_neg NaN = NaN"
| "fl_neg NInf = PInf"
| "fl_neg (Fin x) = Fin (- x)"
| "fl_neg PInf = NInf"

fun fl_add :: "pyfloat \<Rightarrow> pyfloat \<Rightarrow> pyfloat" where
  "fl_add (Fin x) (Fin y) = Fin (x + y)"
| "fl_add NaN _ = NaN"
| "fl_add _ NaN = NaN"
| "fl_add PInf NInf = NaN"
| "fl_add NInf PInf = NaN"
| "fl_add PInf _ = PInf"
| "fl_add NInf _ = NInf"
| "fl_add _ PInf = PInf"
| "fl_add _ NInf = NInf"

definition fl_sub :: "pyfloat \<Rightarrow> pyfloat \<Rightarrow> pyfloat" where
  "fl_sub a b = fl_add a (fl_neg b)"

text \<open>The product of an infinity and a finite factor: NaN at zero, else by the sign.\<close>

definition inf_times :: "bool \<Rightarrow> real \<Rightarrow> pyfloat" where
  "inf_times positive y =
     (if y = 0 then NaN else if (0 < y) = positive then PInf else NInf)"

fun fl_mul :: "pyfloat \<Rightarrow> pyfloat \<Rightarrow> pyfloat" where
  "fl_mul (Fin x) (Fin y) = Fin (x * y)"
| "fl_mul NaN _ = NaN"
| "fl_mul _ NaN = NaN"
| "fl_mul PInf (Fin y) = inf_times True y"
| "fl_mul NInf (Fin y) = inf_times False y"
| "fl_mul (Fin x) PInf = inf_times True x"
| "fl_mul (Fin x) NInf = inf_times False x"
| "fl_mul PInf PInf = PInf"
| "fl_mul NInf NInf = PInf"
| "fl_mul PInf NInf = NInf"
| "fl_mul NInf PInf = NInf"

fun fl_abs :: "pyfloat \<Rightarrow> pyfloat" where
  "fl_abs NaN = NaN"
| "fl_abs NInf = PInf"
| "fl_abs (Fin x) = Fin \<bar>x\<bar>"
| "fl_abs PInf = PInf"

text \<open>Comparisons: every comparison with NaN is false, also \<^verbatim>\<open>==\<close>.\<close>

fun fl_lt :: "pyfloat \<Rightarrow> pyfloat \<Rightarrow> bool" where
  "fl_lt (Fin x) (Fin y) = (x < y)"
| "fl_lt NaN _ = False"
| "fl_lt _ NaN = False"
| "fl_lt _ NInf = False"
| "fl_lt PInf _ = False"
| "fl_lt NInf _ = True"
| "fl_lt _ PInf = True"

definition fl_gt :: "pyfloat \<Rightarrow> pyfloat \<Rightarrow> bool" where
  "fl_gt a b = fl_lt b a"

definition fl_eq :: "pyfloat \<Rightarrow> pyfloat \<Rightarrow> bool" where
  "fl_eq a b = (a \<noteq> NaN \<and> a = b)"

text \<open>
  Indexing a list of length \<open>n\<close> with a Python integer: a negative index counts from the
  end, an index out of range raises IndexError. \<open>py_index\<close> gives the position read.
\<close>

definition py_index :: "nat \<Rightarrow> int \<Rightarrow> pyerror + nat" where
  "py_index n i =
     (let j = (if i < 0 then i + int n else i)
      in if 0 \<le> j \<and> j < int n then Inr (nat j) else Inl IndexError)"

definition getitem :: "'a list \<Rightarrow> int \<Rightarrow> pyerror + 'a" where
  "getitem xs i =
     (case py_index (length xs) i of Inl e \<Rightarrow> Inl e | Inr k \<Rightarrow> Inr (xs ! k))"

definition setitem :: "'a list \<Rightarrow> int \<Rightarrow> 'a \<Rightarrow> pyerror + 'a list" where
  "setitem xs i v =
     (case py_index (length xs) i of Inl e \<Rightarrow> Inl e | Inr k \<Rightarrow> Inr (xs[k := v]))"

text \<open>\<^verbatim>\<open>xrange(n)\<close> for an integer \<open>n\<close>: empty when \<open>n \<le> 0\<close>.\<close>

definition xrange :: "int \<Rightarrow> int list" where
  "xrange n = map int [0..<nat n]"

text \<open>\<^verbatim>\<open>xrange(x)\<close> for an object: Python 2 raises TypeError unless \<open>x\<close> is an integer.\<close>

definition xrange_obj :: "pyobj \<Rightarrow> pyerror + int list" where
  "xrange_obj x = (case x of PyInt n \<Rightarrow> Inr (xrange n) | PyList _ \<Rightarrow> Inl TypeError)"

text \<open>
  The module \<^verbatim>\<open>random\<close>: the generator is the stream of the floats that
  \<^verbatim>\<open>random.random()\<close> will return; a call takes the first and leaves the rest.
\<close>

type_synonym rng = "nat \<Rightarrow> real"

definition random_random :: "rng \<Rightarrow> real \<times> rng" where
  "random_random g = (g 0, \<lambda>n. g (Suc n))"

text \<open>\<^verbatim>\<open>int(x)\<close> on a float truncates towards zero.\<close>

definition py_int :: "real \<Rightarrow> int" where
  "py_int x = (if 0 \<le> x then \<lfloor>x\<rfloor> else \<lceil>x\<rceil>)"

text \<open>
  \<^verbatim>\<open>random.choice(seq)\<close> is \<^verbatim>\<open>seq[int(self.random() * len(seq))]\<close>, which raises
  IndexError on an empty sequence.
\<close>

definition random_choice :: "'a list \<Rightarrow> rng \<Rightarrow> pyerror + ('a \<times> rng)" where
  "random_choice xs g =
     (let (u, g') = random_random g
      in case getitem xs (py_int (u * real (length xs))) of
           Inl e \<Rightarrow> Inl e
         | Inr x \<Rightarrow> Inr (x, g'))"

section \<open>The environment\<close>

text \<open>
  Modelled from the spec: the environment classes (the task or MDP handed to an agent) are
  not among the sources, so the environment is a parameter, a record of the methods the
  agents call, typed as section 6 of the specification gives them:
  \<^verbatim>\<open>get_allowed_actions(state)\<close> returns a sequence of action indices,
  \<^verbatim>\<open>next_state_distribution(state, action)\<close> a sequence of (next state, probability)
  pairs, \<^verbatim>\<open>get_reward\<close> and \<^verbatim>\<open>gamma\<close> finite reals.
  \<open>get_allowed_actions_nostate\<close> is what the call \<^verbatim>\<open>get_allowed_actions()\<close> with the
  state left out does: TypeError for a method declared with the one parameter
  \<^verbatim>\<open>state\<close>, a sequence when the environment declares a default for it.
\<close>

record task =
  get_num_states :: int
  get_num_actions :: int
  gamma :: real
  get_allowed_actions :: "int \<Rightarrow> int list"
  get_allowed_actions_nostate :: "pyerror + int list"
  next_state_distribution :: "int \<Rightarrow> int \<Rightarrow> (int \<times> real) list"
  get_reward :: "int \<Rightarrow> int \<Rightarrow> int \<Rightarrow> real"

section \<open>ValueIterationSolver\<close>

record solver =
  vi_mdp :: task
  vi_num_states :: int
  vi_gamma :: real
  vi_tol :: real
  vi_V :: "pyfloat list"

text \<open>\<^verbatim>\<open>__init__(self, mdp, tol)\<close>: the value table is 1.0 for every state.\<close>

definition ValueIterationSolver_init :: "task \<Rightarrow> real \<Rightarrow> solver" where
  "ValueIterationSolver_init mdp tol =
     \<lparr>vi_mdp = mdp, vi_num_states = get_num_states mdp, vi_gamma = gamma mdp,
      vi_tol = tol, vi_V = map (\<lambda>s. Fin 1) (xrange (get_num_states mdp))\<rparr>"

text \<open>
  The inner loop of \<open>get_action\<close> (lines 35 to 37):
  \<^verbatim>\<open>val += prob * self.gamma * self.V[ns]\<close> for each pair of the distribution.
\<close>

fun lookahead_sum :: "real \<Rightarrow> pyfloat list \<Rightarrow> (int \<times> real) list \<Rightarrow> pyfloat \<Rightarrow> pyerror + pyfloat" where
  "lookahead_sum g V [] val = Inr val"
| "lookahead_sum g V ((ns, prob) # rest) val =
     (case getitem V ns of
        Inl e \<Rightarrow> Inl e
      | Inr v \<Rightarrow> lookahead_sum g V rest (fl_add val (fl_mul (fl_mul (Fin prob) (Fin g)) v)))"

text \<open>The one-step lookahead value of an action at a state (lines 33 to 37).\<close>

definition lookahead :: "solver \<Rightarrow> int \<Rightarrow> int \<Rightarrow> pyerror + pyfloat" where
  "lookahead S state action =
     lookahead_sum (vi_gamma S) (vi_V S)
       (next_state_distribution (vi_mdp S) state action) (Fin 0)"

text \<open>
  The loop over the allowed actions (lines 32 to 44), with the best action and value so
  far. \<^verbatim>\<open>random.random()\<close> is called only when \<^verbatim>\<open>val == best_val\<close> holds.
\<close>

fun get_action_loop ::
  "solver \<Rightarrow> int \<Rightarrow> int list \<Rightarrow> int option \<Rightarrow> pyfloat \<Rightarrow> rng \<Rightarrow> pyerror + (int option \<times> rng)" where
  "get_action_loop S state [] best_action best_val g = Inr (best_action, g)"
| "get_action_loop S state (action # rest) best_action best_val g =
     (case lookahead S state action of
        Inl e \<Rightarrow> Inl e
      | Inr val \<Rightarrow>
          if fl_gt val best_val then get_action_loop S state rest (Some action) val g
          else if fl_eq val best_val then
            (let (u, g') = random_random g
             in if u < 1 / 2 then get_action_loop S state rest (Some action) val g'
                else get_action_loop S state rest best_action best_val g')
          else get_action_loop S state rest best_action best_val g)"

text \<open>
  \<open>ValueIterationSolver.get_action\<close>: the result is \<open>None\<close> when the loop never assigns
  \<^verbatim>\<open>best_action\<close>.
\<close>

definition ValueIterationSolver_get_action ::
  "solver \<Rightarrow> int \<Rightarrow> rng \<Rightarrow> pyerror + (int option \<times> rng)" where
  "ValueIterationSolver_get_action S state g =
     get_action_loop S state (get_allowed_actions (vi_mdp S) state) None NInf g"

text \<open>
  The inner loop of \<open>learn\<close> (lines 67 to 69):
  \<^verbatim>\<open>val += prob * (self.mdp.get_reward(state, action, ns) + self.gamma * self.V[ns])\<close>.
\<close>

fun backup_sum ::
  "task \<Rightarrow> real \<Rightarrow> pyfloat list \<Rightarrow> int \<Rightarrow> int \<Rightarrow> (int \<times> real) list \<Rightarrow> pyfloat \<Rightarrow> pyerror + pyfloat" where
  "backup_sum mdp g V state action [] val = Inr val"
| "backup_sum mdp g V state action ((ns, prob) # rest) val =
     (case getitem V ns of
        Inl e \<Rightarrow> Inl e
      | Inr v \<Rightarrow>
          backup_sum mdp g V state action rest
            (fl_add val
               (fl_mul (Fin prob)
                  (fl_add (Fin (get_reward mdp state action ns)) (fl_mul (Fin g) v)))))"

text \<open>The loop over the allowed actions in \<open>learn\<close> (lines 64 to 72).\<close>

fun best_backup ::
  "task \<Rightarrow> real \<Rightarrow> pyfloat list \<Rightarrow> int \<Rightarrow> int list \<Rightarrow> pyfloat \<Rightarrow> pyerror + pyfloat" where
  "best_backup mdp g V state [] best_val = Inr best_val"
| "best_backup mdp g V state (action # rest) best_val =
     (case backup_sum mdp g V state action (next_state_distribution mdp state action) (Fin 0) of
        Inl e \<Rightarrow> Inl e
      | Inr val \<Rightarrow>
          best_backup mdp g V state rest (if fl_gt val best_val then val else best_val))"

text \<open>
  The body of the loop over the states (lines 57 to 78), on the table and the running
  \<^verbatim>\<open>max_diff\<close>. Line 61 writes 0 for a state without actions, and the lines after it
  run for every state: there is no \<^verbatim>\<open>else\<close> and no \<^verbatim>\<open>continue\<close>.
\<close>

definition sweep_state ::
  "task \<Rightarrow> real \<Rightarrow> int \<Rightarrow> pyfloat list \<times> pyfloat \<Rightarrow> pyerror + (pyfloat list \<times> pyfloat)" where
  "sweep_state mdp g state Vm =
     (let (V, max_diff) = Vm;
          poss_actions = get_allowed_actions mdp state
      in case (if length poss_actions = 0 then setitem V state (Fin 0) else Inr V) of
           Inl e \<Rightarrow> Inl e
         | Inr V1 \<Rightarrow>
             (case best_backup mdp g V1 state poss_actions NInf of
                Inl e \<Rightarrow> Inl e
              | Inr best_val \<Rightarrow>
                  (case getitem V1 state of
                     Inl e \<Rightarrow> Inl e
                   | Inr old \<Rightarrow>
                       (case setitem V1 state best_val of
                          Inl e \<Rightarrow> Inl e
                        | Inr V2 \<Rightarrow>
                            (let diff = fl_abs (fl_sub old best_val)
                             in Inr (V2, if fl_gt diff max_diff then diff else max_diff))))))"

text \<open>
  The loop over the states of one sweep (line 56). When a lookup in \<^verbatim>\<open>self.V\<close>
  raises, the entries written earlier in the sweep stay written; the model returns the
  exception only.
\<close>

fun sweep_states ::
  "task \<Rightarrow> real \<Rightarrow> int list \<Rightarrow> pyfloat list \<times> pyfloat \<Rightarrow> pyerror + (pyfloat list \<times> pyfloat)" where
  "sweep_states mdp g [] Vm = Inr Vm"
| "sweep_states mdp g (state # rest) Vm =
     (case sweep_state mdp g state Vm of
        Inl e \<Rightarrow> Inl e
      | Inr Vm' \<Rightarrow> sweep_states mdp g rest Vm')"

text \<open>One pass of the \<^verbatim>\<open>while True\<close> body up to the test: \<^verbatim>\<open>max_diff = 0.\<close>, then the sweep.\<close>

definition sweep :: "solver \<Rightarrow> pyerror + (pyfloat list \<times> pyfloat)" where
  "sweep S =
     sweep_states (vi_mdp S) (vi_gamma S) (xrange (vi_num_states S)) (vi_V S, Fin 0)"

text \<open>
  \<open>ValueIterationSolver.learn\<close>: sweeps until \<^verbatim>\<open>max_diff < self.tol\<close>. The loop has no
  bound, so the result is an option: \<open>None\<close> when the loop never ends, \<open>Some (Inl e)\<close> when
  it raises, \<open>Some (Inr S')\<close> when it returns, with the solver as \<open>learn\<close> leaves it.
\<close>

partial_function (option) ValueIterationSolver_learn :: "solver \<Rightarrow> (pyerror + solver) option" where
  "ValueIterationSolver_learn S =
     (case sweep S of
        Inl e \<Rightarrow> Some (Inl e)
      | Inr (V', max_diff) \<Rightarrow>
          if fl_lt max_diff (Fin (vi_tol S)) then Some (Inr (S\<lparr>vi_V := V'\<rparr>))
          else ValueIterationSolver_learn (S\<lparr>vi_V := V'\<rparr>))"

section \<open>TdLearner\<close>

text \<open>
  The learner object. The Q table holds Python numbers that the learner only adds and
  multiplies, starting from the integer 1, and the source has no infinite literal here, so
  its entries are idealised as reals. The rows are separate list objects, as the list
  comprehension of \<open>__init__\<close> builds them, so writing an entry of one row leaves the other
  rows alone. The five slots of the streaming buffer are \<open>None\<close> until they are assigned.
\<close>

record tdlearner =
  td_task :: task
  td_num_states :: int
  td_num_actions :: int
  td_gamma :: real
  td_epsilon :: real
  td_alpha :: real
  td_update :: string
  td_Q :: "real list list"
  td_s0 :: "int option"
  td_a0 :: "int option"
  td_r :: "real option"
  td_s1 :: "int option"
  td_a1 :: "int option"

text \<open>
  The list comprehension of line 109, one row for each state \<open>s\<close>:
  \<^verbatim>\<open>[1 for a in xrange(task.get_allowed_actions(s))]\<close>. The argument of \<^verbatim>\<open>xrange\<close> is the
  sequence the environment returns, not its length.
\<close>

fun init_Q :: "task \<Rightarrow> int list \<Rightarrow> pyerror + real list list" where
  "init_Q task [] = Inr []"
| "init_Q task (s # ss) =
     (case xrange_obj (PyList (get_allowed_actions task s)) of
        Inl e \<Rightarrow> Inl e
      | Inr acts \<Rightarrow>
          (case init_Q task ss of
             Inl e \<Rightarrow> Inl e
           | Inr rows \<Rightarrow> Inr (map (\<lambda>a. 1) acts # rows)))"

text \<open>\<^verbatim>\<open>TdLearner.__init__(self, task, update, epsilon, alpha)\<close>.\<close>

definition TdLearner_init :: "task \<Rightarrow> string \<Rightarrow> real \<Rightarrow> real \<Rightarrow> pyerror + tdlearner" where
  "TdLearner_init task update epsilon alpha =
     (if update \<notin> set [''q_learning'', ''sarsa''] then Inl NotImplementedError
      else case init_Q task (xrange (get_num_states task)) of
             Inl e \<Rightarrow> Inl e
           | Inr Q \<Rightarrow>
               Inr \<lparr>td_task = task, td_num_states = get_num_states task,
                    td_num_actions = get_num_actions task, td_gamma = gamma task,
                    td_epsilon = epsilon, td_alpha = alpha, td_update = update, td_Q = Q,
                    td_s0 = None, td_a0 = None, td_r = None, td_s1 = None, td_a1 = None\<rparr>)"

text \<open>\<^verbatim>\<open>max(q_vals)\<close>: ValueError on an empty list; a later item wins only when greater.\<close>

fun py_max :: "real list \<Rightarrow> pyerror + real" where
  "py_max [] = Inl ValueError"
| "py_max (x # xs) = Inr (foldl (\<lambda>m y. if y > m then y else m) x xs)"

text \<open>\<^verbatim>\<open>q_vals.index(v)\<close>: the first position holding \<open>v\<close>, ValueError when there is none.\<close>

fun py_list_index :: "real list \<Rightarrow> real \<Rightarrow> pyerror + int" where
  "py_list_index [] v = Inl ValueError"
| "py_list_index (x # xs) v =
     (if x = v then Inr 0
      else case py_list_index xs v of Inl e \<Rightarrow> Inl e | Inr k \<Rightarrow> Inr (k + 1))"

text \<open>Indexing with a slot of the buffer: \<open>None\<close> is not an index (TypeError).\<close>

definition getitem_opt :: "'a list \<Rightarrow> int option \<Rightarrow> pyerror + 'a" where
  "getitem_opt xs i = (case i of None \<Rightarrow> Inl TypeError | Some k \<Rightarrow> getitem xs k)"

definition setitem_opt :: "'a list \<Rightarrow> int option \<Rightarrow> 'a \<Rightarrow> pyerror + 'a list" where
  "setitem_opt xs i v = (case i of None \<Rightarrow> Inl TypeError | Some k \<Rightarrow> setitem xs k v)"

text \<open>\<open>TdLearner._greedy_action\<close>: \<^verbatim>\<open>q_vals.index(max(q_vals))\<close> on the row of the state.\<close>

definition greedy_action :: "tdlearner \<Rightarrow> int option \<Rightarrow> pyerror + int" where
  "greedy_action ag state =
     (case getitem_opt (td_Q ag) state of
        Inl e \<Rightarrow> Inl e
      | Inr q_vals \<Rightarrow>
          (case py_max q_vals of
             Inl e \<Rightarrow> Inl e
           | Inr m \<Rightarrow> py_list_index q_vals m))"

text \<open>
  \<open>TdLearner.get_action\<close>. Line 124 calls \<^verbatim>\<open>self.task.get_allowed_actions()\<close> without
  the state, on every call and before anything else.
\<close>

definition TdLearner_get_action ::
  "tdlearner \<Rightarrow> int \<Rightarrow> rng \<Rightarrow> pyerror + (int \<times> tdlearner \<times> rng)" where
  "TdLearner_get_action ag state g =
     (case get_allowed_actions_nostate (td_task ag) of
        Inl e \<Rightarrow> Inl e
      | Inr poss_actions \<Rightarrow>
          (let (u, g1) = random_random g
           in case (if u < td_epsilon ag then random_choice poss_actions g1
                    else (case greedy_action ag (Some state) of
                            Inl e \<Rightarrow> Inl e
                          | Inr a \<Rightarrow> Inr (a, g1))) of
                Inl e \<Rightarrow> Inl e
              | Inr (action, g2) \<Rightarrow>
                  Inr (action,
                       ag\<lparr>td_s0 := td_s1 ag, td_a0 := td_a1 ag,
                          td_s1 := Some state, td_a1 := Some action\<rparr>,
                       g2)))"

text \<open>
  \<open>TdLearner._td_update\<close> (lines 155 to 158). Line 157 reads \<^verbatim>\<open>self.Q[s1][a1]\<close>, adds
  \<open>r\<close> (TypeError when \<open>r\<close> is \<open>None\<close>), then reads \<^verbatim>\<open>self.Q[s0][a0]\<close>; line 158 writes
  \<^verbatim>\<open>self.Q[s0][a0]\<close>.
\<close>

definition TdLearner_td_update ::
  "tdlearner \<Rightarrow> int option \<Rightarrow> int option \<Rightarrow> real option \<Rightarrow> int option \<Rightarrow> int option
     \<Rightarrow> pyerror + tdlearner" where
  "TdLearner_td_update ag s0 a0 r s1 a1 =
     (case getitem_opt (td_Q ag) s1 of
        Inl e \<Rightarrow> Inl e
      | Inr row1 \<Rightarrow>
     (case getitem_opt row1 a1 of
        Inl e \<Rightarrow> Inl e
      | Inr q1 \<Rightarrow>
     (case r of
        None \<Rightarrow> Inl TypeError
      | Some rv \<Rightarrow>
     (case getitem_opt (td_Q ag) s0 of
        Inl e \<Rightarrow> Inl e
      | Inr row0 \<Rightarrow>
     (case getitem_opt row0 a0 of
        Inl e \<Rightarrow> Inl e
      | Inr q0 \<Rightarrow>
          (let td_error = rv + td_gamma ag * q1 - q0
           in case setitem_opt row0 a0 (q0 + td_alpha ag * td_error) of
                Inl e \<Rightarrow> Inl e
              | Inr row0' \<Rightarrow>
                  (case setitem_opt (td_Q ag) s0 row0' of
                     Inl e \<Rightarrow> Inl e
                   | Inr Q' \<Rightarrow> Inr (ag\<lparr>td_Q := Q'\<rparr>))))))))"

text \<open>\<open>TdLearner.learn\<close> (lines 139 to 153).\<close>

definition TdLearner_learn :: "tdlearner \<Rightarrow> real \<Rightarrow> pyerror + tdlearner" where
  "TdLearner_learn ag reward =
     (case (if td_s0 ag \<noteq> None then
              (case (if td_update ag = ''q_learning'' then
                       (case greedy_action ag (td_s1 ag) of
                          Inl e \<Rightarrow> Inl e
                        | Inr a \<Rightarrow> Inr (Some a))
                     else if td_update ag = ''sarsa'' then Inr (td_a1 ag)
                     else Inl NotImplementedError) of
                 Inl e \<Rightarrow> Inl e
               | Inr next_action \<Rightarrow>
                   TdLearner_td_update ag (td_s0 ag) (td_a0 ag) (td_r ag) (td_s1 ag) next_action)
            else Inr ag) of
        Inl e \<Rightarrow> Inl e
      | Inr ag' \<Rightarrow> Inr (ag'\<lparr>td_r := Some reward\<rparr>))"

section \<open>Example environments\<close>

text \<open>
  The two-state MDP of the specification's concrete scenario: state 0 has the one action
  0, which leads to state 1 with probability 1 and reward 1; state 1 has no action; the
  discount is 0.9. \<^verbatim>\<open>get_allowed_actions\<close> takes the state and has no default for it.
\<close>

definition mdp2 :: task where
  "mdp2 =
     \<lparr>get_num_states = 2, get_num_actions = 1, gamma = 9 / 10,
      get_allowed_actions = (\<lambda>s. if s = 0 then [0] else []),
      get_allowed_actions_nostate = Inl TypeError,
      next_state_distribution = (\<lambda>s a. if s = 0 \<and> a = 0 then [(1, 1)] else []),
      get_reward = (\<lambda>s a ns. if s = 0 \<and> a = 0 \<and> ns = 1 then 1 else 0)\<rparr>"

definition solver2 :: solver where
  "solver2 = ValueIterationSolver_init mdp2 (1 / 1000)"

text \<open>A generator that returns the same float forever.\<close>

definition const_rng :: "real \<Rightarrow> rng" where
  "const_rng u = (\<lambda>n. u)"

text \<open>
  A solver over three states whose table is not the initial one: state 0 has the actions
  0 and 1, leading to state 1 and to state 2; the states 1 and 2 have no action.
\<close>

definition mdp3 :: task where
  "mdp3 =
     \<lparr>get_num_states = 3, get_num_actions = 2, gamma = 9 / 10,
      get_allowed_actions = (\<lambda>s. if s = 0 then [0, 1] else []),
      get_allowed_actions_nostate = Inl TypeError,
      next_state_distribution = (\<lambda>s a. if s = 0 then [(a + 1, 1)] else []),
      get_reward = (\<lambda>s a ns. 0)\<rparr>"

definition solver3 :: solver where
  "solver3 = (ValueIterationSolver_init mdp3 (1 / 1000))\<lparr>vi_V := [Fin 0, Fin 1, Fin 2]\<rparr>"

text \<open>
  An environment whose \<^verbatim>\<open>get_allowed_actions\<close> has a default for the state (its current
  state, here state 1): state 0 allows the action 0, state 1 the actions 0 and 1.
\<close>

definition task_default :: task where
  "task_default =
     \<lparr>get_num_states = 2, get_num_actions = 2, gamma = 9 / 10,
      get_allowed_actions = (\<lambda>s. if s = 0 then [0] else [0, 1]),
      get_allowed_actions_nostate = Inr [0, 1],
      next_state_distribution = (\<lambda>s a. [(1 - s, 1)]),
      get_reward = (\<lambda>s a ns. 1)\<rparr>"

text \<open>
  A learner with the empty buffer that \<open>__init__\<close> sets up, over a given table, with
  \<open>epsilon = 0.05\<close> and \<open>alpha = 0.1\<close>.
\<close>

definition learner0 :: "task \<Rightarrow> string \<Rightarrow> real list list \<Rightarrow> tdlearner" where
  "learner0 task update Q =
     \<lparr>td_task = task, td_num_states = get_num_states task,
      td_num_actions = get_num_actions task, td_gamma = gamma task,
      td_epsilon = 1 / 20, td_alpha = 1 / 10, td_update = update, td_Q = Q,
      td_s0 = None, td_a0 = None, td_r = None, td_s1 = None, td_a1 = None\<rparr>"

text \<open>
  A learner object in mid-stream, over a table: the transition from state 0 with action 0
  and reward 2 to state 1 is buffered, and action 0 has been chosen at state 1, where
  action 1 has the greater table entry.
\<close>

definition learner_mid :: "string \<Rightarrow> tdlearner" where
  "learner_mid update =
     (learner0 task_default update [[1], [2, 3]])
       \<lparr>td_s0 := Some 0, td_a0 := Some 0, td_r := Some 2, td_s1 := Some 1, td_a1 := Some 0\<rparr>"

text \<open>
  The learners that the calls \<open>get_action(0)\<close>, \<open>learn(2)\<close>, \<open>get_action(1)\<close>,
  \<open>learn(5)\<close> leave one after the other, from the empty buffer over the table
  \<open>[[1], [1, 1]]\<close>, when every call of \<open>get_action\<close> is greedy.
\<close>

definition lag0 :: tdlearner where
  "lag0 = learner0 task_default ''q_learning'' [[1], [1, 1]]"

definition lag1 :: tdlearner where
  "lag1 = lag0\<lparr>td_s1 := Some 0, td_a1 := Some 0\<rparr>"

definition lag2 :: tdlearner where
  "lag2 = lag1\<lparr>td_r := Some 2\<rparr>"

definition lag3 :: tdlearner where
  "lag3 = lag2\<lparr>td_s0 := Some 0, td_a0 := Some 0, td_s1 := Some 1, td_a1 := Some 0\<rparr>"

definition lag4 :: tdlearner where
  "lag4 = lag3\<lparr>td_Q := [[119 / 100], [1, 1]], td_r := Some 5\<rparr>"






text \<open>The state of the buffer after \<open>__init__\<close> (lines 112 to 116).\<close>

definition fresh :: "tdlearner \<Rightarrow> bool" where
  "fresh ag =
     (td_s0 ag = None \<and> td_a0 ag = None \<and> td_r ag = None \<and> td_s1 ag = None \<and> td_a1 ag = None)"

text \<open>A generator that returns \<open>u\<close> first and \<open>v\<close> ever after.\<close>

definition rng2 :: "real \<Rightarrow> real \<Rightarrow> rng" where
  "rng2 u v = (\<lambda>n. if n = 0 then u else v)"

section \<open>Facts about the Python values\<close>

lemma fl_lt_irrefl: "\<not> fl_lt a a"
  by (cases a) simp_all

lemma fl_lt_trans: "fl_lt a b \<Longrightarrow> fl_lt b c \<Longrightarrow> fl_lt a c"
  by (cases a; cases b; cases c) simp_all

lemma getitem_Inr_iff:
  "getitem xs i = Inr v \<longleftrightarrow> (\<exists>k. py_index (length xs) i = Inr k \<and> v = xs ! k)"
  by (auto simp: getitem_def split: sum.splits)

lemma getitem_opt_Inr_iff:
  "getitem_opt xs io = Inr v \<longleftrightarrow> (\<exists>i. io = Some i \<and> getitem xs i = Inr v)"
  by (cases io) (simp_all add: getitem_opt_def)

lemma py_index_nonneg: "0 \<le> i \<Longrightarrow> py_index n i = Inr k \<Longrightarrow> k = nat i \<and> k < n"
  by (auto simp: py_index_def Let_def split: if_splits)

lemma xrange_2: "xrange 2 = [0, 1]"
  by (simp add: xrange_def upt_rec)

lemma random_random_const: "random_random (const_rng u) = (u, const_rng u)"
  by (simp add: random_random_def const_rng_def)

lemma random_random_rng2: "random_random (rng2 u v) = (u, const_rng v)"
  by (simp add: random_random_def const_rng_def rng2_def)

section \<open>ValueIterationSolver: the sweep\<close>

text \<open>
  What the body of the sweep does at a state without actions, for every environment and
  every table: line 61 writes 0, \<^verbatim>\<open>best_val\<close> is still \<^verbatim>\<open>-inf\<close> after the empty loop,
  line 74 takes the difference of 0 and \<^verbatim>\<open>-inf\<close>, and line 75 writes \<^verbatim>\<open>-inf\<close>.
\<close>

lemma sweep_state_terminal:
  assumes "get_allowed_actions mdp state = []" and "py_index (length V) state = Inr k"
  shows "sweep_state mdp g state (V, m) = Inr (V[k := NInf], if fl_gt PInf m then PInf else m)"
  using assms
  by (simp add: sweep_state_def setitem_def getitem_def fl_sub_def py_index_def Let_def
      split: if_splits)

text \<open>
  The body of the sweep writes the one entry of its state, and \<^verbatim>\<open>-inf\<close> there when
  the state has no actions.
\<close>

lemma sweep_state_writes_one:
  assumes "sweep_state mdp g state (V, m) = Inr (V', m')"
  shows "\<exists>k v. py_index (length V) state = Inr k \<and> V' = V[k := v] \<and>
           (get_allowed_actions mdp state = [] \<longrightarrow> v = NInf)"
proof (cases "get_allowed_actions mdp state = []")
  case True
  from assms True obtain k where k: "py_index (length V) state = Inr k"
    by (cases "py_index (length V) state") (simp_all add: sweep_state_def setitem_def)
  from assms sweep_state_terminal[OF True k, of g m] have "V' = V[k := NInf]" by simp
  with k True show ?thesis by blast
next
  case False
  from assms False obtain best where "best_backup mdp g V state (get_allowed_actions mdp state) NInf = Inr best"
    by (cases "best_backup mdp g V state (get_allowed_actions mdp state) NInf")
       (simp_all add: sweep_state_def)
  with assms False show ?thesis
    by (cases "py_index (length V) state")
       (auto simp: sweep_state_def getitem_def setitem_def Let_def)
qed

text \<open>
  \<^verbatim>\<open>max_diff\<close> is never NaN, stays infinite once it is, and is infinite after a state
  without actions.
\<close>

lemma sweep_state_max_diff:
  assumes "sweep_state mdp g state (V, m) = Inr (V', m')" and "m \<noteq> NaN"
  shows "m' \<noteq> NaN \<and> (m = PInf \<or> get_allowed_actions mdp state = [] \<longrightarrow> m' = PInf)"
proof -
  have step: "(if fl_gt d m then d else m) \<noteq> NaN \<and> (m = PInf \<longrightarrow> (if fl_gt d m then d else m) = PInf)" for d
    using assms(2) by (cases d; cases m) (simp_all add: fl_gt_def)
  have at_term: "(if fl_gt PInf m then PInf else m) = PInf"
    using assms(2) by (cases m) (simp_all add: fl_gt_def)
  show ?thesis
  proof (cases "get_allowed_actions mdp state = []")
    case True
    from assms True obtain k where k: "py_index (length V) state = Inr k"
      by (cases "py_index (length V) state") (simp_all add: sweep_state_def setitem_def)
    from assms(1) sweep_state_terminal[OF True k, of g m] at_term show ?thesis by simp
  next
    case False
    from assms(1) have "\<exists>d. m' = (if fl_gt d m then d else m)"
      unfolding sweep_state_def Let_def
      by (simp split: sum.splits if_splits) blast+
    then obtain d where "m' = (if fl_gt d m then d else m)" ..
    with step[of d] False show ?thesis by simp
  qed
qed

lemma sweep_states_max_diff:
  assumes "sweep_states mdp g states (V, m) = Inr (V', m')" and "m \<noteq> NaN"
  shows "m' \<noteq> NaN \<and> (m = PInf \<or> (\<exists>s\<in>set states. get_allowed_actions mdp s = []) \<longrightarrow> m' = PInf)"
  using assms
proof (induction states arbitrary: V m)
  case Nil
  then show ?case by simp
next
  case (Cons s rest)
  from Cons.prems(1) obtain V1 m1 where
    st: "sweep_state mdp g s (V, m) = Inr (V1, m1)" and
    rest: "sweep_states mdp g rest (V1, m1) = Inr (V', m')"
    by (cases "sweep_state mdp g s (V, m)") auto
  from sweep_state_max_diff[OF st Cons.prems(2)] have
    m1: "m1 \<noteq> NaN" "m = PInf \<or> get_allowed_actions mdp s = [] \<longrightarrow> m1 = PInf" by simp_all
  from Cons.IH[OF rest m1(1)] m1(2) show ?case by auto
qed

lemma sweep_terminal_max_diff:
  assumes "sweep S = Inr (V', m)"
    and "s \<in> set (xrange (vi_num_states S))" "get_allowed_actions (vi_mdp S) s = []"
  shows "m = PInf"
  using sweep_states_max_diff[OF assms(1)[unfolded sweep_def]] assms(2,3) by auto

text \<open>
  The later states of the sweep write other entries, so for every solver a sweep that
  returns leaves \<^verbatim>\<open>-inf\<close> at each state without actions.
\<close>

lemma sweep_states_terminal_value:
  assumes "sweep_states mdp g states (V, m) = Inr (V', m')"
    and "distinct states" "\<forall>x\<in>set states. 0 \<le> x"
  shows "length V' = length V \<and>
         (\<forall>s\<in>set states. get_allowed_actions mdp s = [] \<longrightarrow> V' ! nat s = NInf) \<and>
         (\<forall>k. int k \<notin> set states \<longrightarrow> V' ! k = V ! k)"
  using assms
proof (induction states arbitrary: V m)
  case Nil
  then show ?case by simp
next
  case (Cons s rest)
  from Cons.prems(1) obtain V1 m1 where
    st: "sweep_state mdp g s (V, m) = Inr (V1, m1)" and
    rest: "sweep_states mdp g rest (V1, m1) = Inr (V', m')"
    by (cases "sweep_state mdp g s (V, m)") auto
  from sweep_state_writes_one[OF st] obtain k v where
    k: "py_index (length V) s = Inr k" "V1 = V[k := v]" "get_allowed_actions mdp s = [] \<longrightarrow> v = NInf"
    by blast
  from Cons.prems(3) have "0 \<le> s" by simp
  from py_index_nonneg[OF this k(1)] have kn: "k = nat s" "k < length V" by simp_all
  from Cons.prems(2,3) have d: "distinct rest" "\<forall>x\<in>set rest. 0 \<le> x" "s \<notin> set rest" by simp_all
  from Cons.IH[OF rest d(1,2)] have
    ih: "length V' = length V1"
        "\<forall>t\<in>set rest. get_allowed_actions mdp t = [] \<longrightarrow> V' ! nat t = NInf"
        "\<forall>j. int j \<notin> set rest \<longrightarrow> V' ! j = V1 ! j"
    by simp_all
  have "int (nat s) \<notin> set rest" using \<open>0 \<le> s\<close> d(3) by simp
  with ih(3) have "V' ! nat s = V1 ! nat s" by blast
  with k kn have here: "get_allowed_actions mdp s = [] \<longrightarrow> V' ! nat s = NInf" by simp
  have other: "\<forall>j. int j \<notin> set (s # rest) \<longrightarrow> V' ! j = V ! j"
  proof (intro allI impI)
    fix j assume j: "int j \<notin> set (s # rest)"
    then have "j \<noteq> nat s" using \<open>0 \<le> s\<close> by auto
    with ih(3) j k(2) kn show "V' ! j = V ! j" by simp
  qed
  from ih(1,2) k(2) here other show ?case by simp
qed

lemma sweep_terminal_value:
  assumes "sweep S = Inr (V', m)"
    and "s \<in> set (xrange (vi_num_states S))" "get_allowed_actions (vi_mdp S) s = []"
  shows "V' ! nat s = NInf"
proof -
  have "distinct (xrange (vi_num_states S))" "\<forall>x\<in>set (xrange (vi_num_states S)). 0 \<le> x"
    by (simp_all add: xrange_def distinct_map inj_on_def)
  from sweep_states_terminal_value[OF assms(1)[unfolded sweep_def] this] assms(2,3)
  show ?thesis by blast
qed

text \<open>
  C1. The claim: for every state without allowed actions, one sweep of \<open>learn\<close> leaves
  \<open>V[state] = 0\<close>, and the change from the old value counts towards \<^verbatim>\<open>max_diff\<close>. The
  code does not do this. In the two-state MDP of the specification, state 1 has no
  actions; the first sweep from the initial table \<open>[1, 1]\<close> leaves \<open>V[1] = -inf\<close>, and
  \<^verbatim>\<open>max_diff\<close> is \<open>+inf\<close>, not the change 1 from the old value.
\<close>

theorem sweep_terminal_not_pinned:
  "get_allowed_actions (vi_mdp solver2) 1 = [] \<and> vi_V solver2 = [Fin 1, Fin 1] \<and>
   sweep solver2 = Inr ([Fin (19 / 10), NInf], PInf)"
  by (simp add: sweep_def solver2_def ValueIterationSolver_init_def mdp2_def xrange_2
      sweep_state_def setitem_def getitem_def py_index_def fl_gt_def fl_sub_def)

section \<open>ValueIterationSolver: learn on the two-state MDP\<close>

text \<open>
  For every solver whose environment has a state without actions, \<open>learn\<close> does not
  return normally: the test \<^verbatim>\<open>max_diff < self.tol\<close> fails after every sweep.
\<close>

lemma learn_terminal_never_converges:
  assumes "ValueIterationSolver_learn S = Some y"
    and "s \<in> set (xrange (vi_num_states S))" "get_allowed_actions (vi_mdp S) s = []"
  shows "isl y"
  using assms
proof (induction rule: ValueIterationSolver_learn.raw_induct[rotated 1, consumes 1])
  case (1 learn S y)
  show ?case
  proof (cases "sweep S")
    case (Inl e)
    with 1(2) show ?thesis by auto
  next
    case (Inr Vm)
    obtain V' m where Vm: "Vm = (V', m)" by (cases Vm)
    from sweep_terminal_max_diff[OF Inr[unfolded Vm] 1(3,4)] have "m = PInf" .
    with 1(2) Inr Vm have "learn (S\<lparr>vi_V := V'\<rparr>) = Some y" by simp
    from 1(1)[OF this] 1(3,4) show ?thesis by simp
  qed
qed

text \<open>
  On the two-state MDP every sweep ends with \<^verbatim>\<open>max_diff\<close> infinite, whatever the table
  holds, because of state 1.
\<close>

lemma sweep_mdp2:
  assumes "vi_mdp S = mdp2" "vi_gamma S = 9 / 10" "vi_num_states S = 2" "length (vi_V S) = 2"
  shows "\<exists>V'. sweep S = Inr (V', PInf) \<and> length V' = 2"
proof -
  obtain a b where V: "vi_V S = [a, b]"
    using assms(4)
    by (metis (no_types, opaque_lifting) length_0_conv length_Suc_conv numeral_2_eq_2)
  show ?thesis
    using assms(1-3) V
    by (cases a; cases b)
       (simp_all add: sweep_def mdp2_def xrange_2 sweep_state_def setitem_def getitem_def
          py_index_def fl_gt_def fl_sub_def inf_times_def)
qed

lemma learn_mdp2_never_returns:
  "ValueIterationSolver_learn S = Some y \<Longrightarrow>
     \<not> (vi_mdp S = mdp2 \<and> vi_gamma S = 9 / 10 \<and> vi_num_states S = 2 \<and> length (vi_V S) = 2)"
proof (induction rule: ValueIterationSolver_learn.raw_induct[rotated 1, consumes 1])
  case (1 learn S y)
  show ?case
  proof
    assume inv: "vi_mdp S = mdp2 \<and> vi_gamma S = 9 / 10 \<and> vi_num_states S = 2 \<and> length (vi_V S) = 2"
    then obtain V' where sw: "sweep S = Inr (V', PInf)" and len: "length V' = 2"
      using sweep_mdp2 by blast
    from 1(2) sw have "learn (S\<lparr>vi_V := V'\<rparr>) = Some y" by simp
    from 1(1)[OF this] inv len show False by simp
  qed
qed

text \<open>
  C2. The claim: on the two-state MDP with \<open>gamma = 0.9\<close> and \<open>tol = 1e-3\<close>, \<open>learn\<close>
  terminates with \<open>V[1] = 0\<close> and \<open>V[0]\<close> converged to 1, and \<open>get_action(0)\<close> returns the one
  action. The code does not do this: \<open>learn\<close> never returns on this MDP, since every sweep
  ends with \<^verbatim>\<open>max_diff\<close> infinite.
\<close>

theorem learn_two_state_diverges: "ValueIterationSolver_learn solver2 = None"
proof (cases "ValueIterationSolver_learn solver2")
  case None
  then show ?thesis .
next
  case (Some y)
  from learn_mdp2_never_returns[OF this] show ?thesis
    by (simp add: solver2_def ValueIterationSolver_init_def mdp2_def xrange_2)
qed

section \<open>ValueIterationSolver: get_action\<close>

text \<open>
  C5, as the code has it. The claim says that \<open>get_action\<close> fails with an error at a state
  without allowed actions. The code raises nothing there: the loop body never runs and the
  method returns \<open>None\<close>, the initial value of \<^verbatim>\<open>best_action\<close>, without drawing a random
  number.
\<close>

theorem get_action_no_actions:
  "get_allowed_actions (vi_mdp S) state = [] \<Longrightarrow>
     ValueIterationSolver_get_action S state g = Inr (None, g)"
  by (simp add: ValueIterationSolver_get_action_def)

theorem get_action_no_actions_witness:
  "get_allowed_actions (vi_mdp solver3) 2 = [] \<and>
   ValueIterationSolver_get_action solver3 2 (const_rng (1 / 2)) = Inr (None, const_rng (1 / 2))"
  using get_action_no_actions [of solver3 2 "const_rng (1 / 2)"]
  by (simp add: solver3_def ValueIterationSolver_init_def mdp3_def)

text \<open>
  C5, the claim as stated, refuted: state 1 of the two-state MDP has no allowed actions, and
  \<open>get_action\<close> returns normally there.
\<close>

theorem get_action_terminal_returns:
  "get_allowed_actions (vi_mdp solver2) 1 = [] \<and>
   ValueIterationSolver_get_action solver2 1 (const_rng 0) = Inr (None, const_rng 0) \<and>
   \<not> isl (ValueIterationSolver_get_action solver2 1 (const_rng 0))"
  by (simp add: ValueIterationSolver_get_action_def solver2_def ValueIterationSolver_init_def
      mdp2_def)

text \<open>
  The loop of \<open>get_action\<close> keeps this invariant about the actions \<open>X\<close> seen so far: no
  value of an action in \<open>X\<close> is greater than \<^verbatim>\<open>best_val\<close>, and \<^verbatim>\<open>best_action\<close>, once
  assigned, is in \<open>X\<close> and has the value \<^verbatim>\<open>best_val\<close>.
\<close>

lemma get_action_loop_greedy:
  assumes "get_action_loop S state acts ba bv g = Inr (Some a, g')"
    and "\<forall>x\<in>X. \<exists>vx. lookahead S state x = Inr vx \<and> \<not> fl_lt bv vx"
    and "\<forall>c. ba = Some c \<longrightarrow> c \<in> X \<and> lookahead S state c = Inr bv"
  shows "a \<in> X \<union> set acts \<and>
         (\<exists>va. lookahead S state a = Inr va \<and>
            (\<forall>x\<in>X \<union> set acts. \<exists>vx. lookahead S state x = Inr vx \<and> \<not> fl_lt va vx))"
  using assms
proof (induction acts arbitrary: ba bv g X)
  case Nil
  then show ?case by auto
next
  case (Cons action rest)
  from Cons.prems(1) obtain val where val: "lookahead S state action = Inr val"
    by (auto split: sum.splits)
  let ?X = "insert action X"
  consider (gt) "fl_gt val bv"
    | (tie_take) "\<not> fl_gt val bv" "fl_eq val bv" "fst (random_random g) < 1 / 2"
    | (tie_keep) "\<not> fl_gt val bv" "fl_eq val bv" "\<not> fst (random_random g) < 1 / 2"
    | (less) "\<not> fl_gt val bv" "\<not> fl_eq val bv"
    by blast
  then have "\<exists>ba' bv' g1. get_action_loop S state rest ba' bv' g1 = Inr (Some a, g')
      \<and> (\<forall>x\<in>?X. \<exists>vx. lookahead S state x = Inr vx \<and> \<not> fl_lt bv' vx)
      \<and> (\<forall>c. ba' = Some c \<longrightarrow> c \<in> ?X \<and> lookahead S state c = Inr bv')"
  proof cases
    case gt
    have "\<forall>x\<in>?X. \<exists>vx. lookahead S state x = Inr vx \<and> \<not> fl_lt val vx"
      using Cons.prems(2) val gt fl_lt_trans fl_lt_irrefl unfolding fl_gt_def by blast
    moreover have "get_action_loop S state rest (Some action) val g = Inr (Some a, g')"
      using Cons.prems(1) val gt by simp
    ultimately show ?thesis using val by blast
  next
    case tie_take
    then have eq: "val = bv" by (simp add: fl_eq_def)
    have "\<forall>x\<in>?X. \<exists>vx. lookahead S state x = Inr vx \<and> \<not> fl_lt val vx"
      using Cons.prems(2) val eq fl_lt_irrefl by auto
    moreover have "get_action_loop S state rest (Some action) val (snd (random_random g)) = Inr (Some a, g')"
      using Cons.prems(1) val tie_take by (simp add: split_beta)
    ultimately show ?thesis using val by blast
  next
    case tie_keep
    then have eq: "val = bv" by (simp add: fl_eq_def)
    have "\<forall>x\<in>?X. \<exists>vx. lookahead S state x = Inr vx \<and> \<not> fl_lt bv vx"
      using Cons.prems(2) val eq fl_lt_irrefl by auto
    moreover have "get_action_loop S state rest ba bv (snd (random_random g)) = Inr (Some a, g')"
      using Cons.prems(1) val tie_keep by (simp add: split_beta)
    ultimately show ?thesis using Cons.prems(3) by blast
  next
    case less
    have "\<forall>x\<in>?X. \<exists>vx. lookahead S state x = Inr vx \<and> \<not> fl_lt bv vx"
      using Cons.prems(2) val less by (auto simp: fl_gt_def)
    moreover have "get_action_loop S state rest ba bv g = Inr (Some a, g')"
      using Cons.prems(1) val less by simp
    ultimately show ?thesis using Cons.prems(3) by blast
  qed
  then obtain ba' bv' g1 where
    run: "get_action_loop S state rest ba' bv' g1 = Inr (Some a, g')"
    and inv1: "\<forall>x\<in>?X. \<exists>vx. lookahead S state x = Inr vx \<and> \<not> fl_lt bv' vx"
    and inv2: "\<forall>c. ba' = Some c \<longrightarrow> c \<in> ?X \<and> lookahead S state c = Inr bv'"
    by blast
  from Cons.IH[OF run inv1 inv2] show ?case by simp
qed

text \<open>
  C8. For every value table (infinite and NaN entries included), every state and every
  outcome \<open>g\<close> of the random draws: when \<open>get_action\<close> returns an action \<open>a\<close>, then \<open>a\<close> is
  allowed at the state and no allowed action \<open>b\<close> has a one-step lookahead value strictly
  greater than that of \<open>a\<close>.
\<close>

theorem get_action_greedy:
  assumes "ValueIterationSolver_get_action S state g = Inr (Some a, g')"
    and "b \<in> set (get_allowed_actions (vi_mdp S) state)"
  shows "a \<in> set (get_allowed_actions (vi_mdp S) state) \<and>
         (\<exists>va vb. lookahead S state a = Inr va \<and> lookahead S state b = Inr vb \<and> \<not> fl_lt va vb)"
proof -
  have "a \<in> {} \<union> set (get_allowed_actions (vi_mdp S) state) \<and>
         (\<exists>va. lookahead S state a = Inr va \<and>
            (\<forall>x\<in>{} \<union> set (get_allowed_actions (vi_mdp S) state).
                \<exists>vx. lookahead S state x = Inr vx \<and> \<not> fl_lt va vx))"
    by (rule get_action_loop_greedy[where ba = None and bv = NInf])
       (use assms(1) in \<open>simp_all add: ValueIterationSolver_get_action_def\<close>)
  with assms(2) show ?thesis by auto
qed

text \<open>An instance with two allowed actions of different value: the better one is returned.\<close>

theorem get_action_greedy_witness:
  "ValueIterationSolver_get_action solver3 0 (const_rng 0) = Inr (Some 1, const_rng 0) \<and>
   0 \<in> set (get_allowed_actions (vi_mdp solver3) 0) \<and>
   (1 \<in> set (get_allowed_actions (vi_mdp solver3) 0) \<and>
    (\<exists>va vb. lookahead solver3 0 1 = Inr va \<and> lookahead solver3 0 0 = Inr vb \<and> \<not> fl_lt va vb))"
proof -
  have h1: "ValueIterationSolver_get_action solver3 0 (const_rng 0) = Inr (Some 1, const_rng 0)"
    by (simp add: ValueIterationSolver_get_action_def solver3_def ValueIterationSolver_init_def
        mdp3_def lookahead_def getitem_def py_index_def fl_gt_def fl_eq_def)
  have h2: "0 \<in> set (get_allowed_actions (vi_mdp solver3) 0)"
    by (simp add: solver3_def ValueIterationSolver_init_def mdp3_def)
  show ?thesis
    by (rule conjI[OF h1 conjI[OF h2 get_action_greedy[OF h1 h2]]])
qed

section \<open>TdLearner: construction\<close>

text \<open>
  The row of the first state already raises: \<^verbatim>\<open>xrange\<close> gets the sequence of allowed
  actions. So construction completes only for an environment without states.
\<close>

lemma init_Q_Cons: "init_Q task (s # ss) = Inl TypeError"
  by (simp add: xrange_obj_def)

lemma init_Q_no_NotImplemented: "init_Q task ss \<noteq> Inl NotImplementedError"
  by (cases ss) (simp_all add: xrange_obj_def)

text \<open>
  The check of \<open>update\<close> (lines 104 and 105) comes first and is the only source of
  NotImplementedError in \<open>__init__\<close>.
\<close>

lemma init_unsupported_iff:
  "TdLearner_init task update epsilon alpha = Inl NotImplementedError \<longleftrightarrow>
     update \<notin> {''q_learning'', ''sarsa''}"
  using init_Q_no_NotImplemented[of task "xrange (get_num_states task)"]
  by (auto simp: TdLearner_init_def split: sum.splits)

lemma init_with_states:
  assumes "0 < get_num_states task" "update \<in> {''q_learning'', ''sarsa''}"
  shows "TdLearner_init task update epsilon alpha = Inl TypeError"
proof -
  from assms(1) obtain s ss where "xrange (get_num_states task) = s # ss"
    by (cases "xrange (get_num_states task)") (auto simp: xrange_def)
  with assms(2) show ?thesis
    by (auto simp: TdLearner_init_def xrange_obj_def)
qed

lemma init_fresh: "TdLearner_init task update epsilon alpha = Inr ag \<Longrightarrow> fresh ag"
  by (auto simp: TdLearner_init_def fresh_def split: if_splits sum.splits)

text \<open>
  C3. The claim: after construction with a supported update rule, every row \<open>Q[s]\<close> has one
  entry for each legal action of \<open>s\<close>, all holding the same constant. The code does not get
  there: for the two-state MDP, whose state 0 has the allowed actions \<open>[0]\<close>, line 109
  evaluates \<^verbatim>\<open>xrange([0])\<close> and construction raises TypeError; no table is built.
\<close>

theorem init_raises_TypeError:
  "get_num_states mdp2 = 2 \<and> get_allowed_actions mdp2 0 = [0] \<and>
   TdLearner_init mdp2 ''q_learning'' (1 / 20) (1 / 10) = Inl TypeError"
  by (simp add: TdLearner_init_def mdp2_def xrange_2 xrange_obj_def)

text \<open>
  C9. The claim: construction fails with the unsupported-configuration error exactly when
  \<open>update\<close> is outside \<open>{q_learning, sarsa}\<close>, and with either supported value construction
  completes. The first half is \<open>init_unsupported_iff\<close>. The second half fails on the code:
  with either supported value, construction over an environment with states raises
  TypeError at line 109.
\<close>

theorem init_supported_update_incomplete:
  "TdLearner_init task_default ''q_learning'' (1 / 20) (1 / 10) = Inl TypeError \<and>
   TdLearner_init task_default ''sarsa'' (1 / 20) (1 / 10) = Inl TypeError"
  by (simp add: TdLearner_init_def task_default_def xrange_2 xrange_obj_def)

section \<open>TdLearner: get_action\<close>

lemma greedy_action_cong: "td_Q ag = td_Q ag' \<Longrightarrow> greedy_action ag s = greedy_action ag' s"
  by (simp add: greedy_action_def)

lemma get_action_Inr:
  assumes "TdLearner_get_action ag state g = Inr (a, ag', g')"
  shows "ag' = ag\<lparr>td_s0 := td_s1 ag, td_a0 := td_a1 ag, td_s1 := Some state, td_a1 := Some a\<rparr>"
  using assms
  by (auto simp: TdLearner_get_action_def split_beta Let_def split: sum.splits if_splits)

text \<open>
  \<open>_greedy_action\<close> returns the first position of the greatest entry of the row.
\<close>

lemma py_max_Inr: "py_max xs = Inr m \<Longrightarrow> m \<in> set xs \<and> (\<forall>x\<in>set xs. x \<le> m)"
proof (cases xs)
  case Nil
  assume "py_max xs = Inr m" with Nil show ?thesis by simp
next
  case (Cons x ys)
  assume a: "py_max xs = Inr m"
  have "foldl (\<lambda>m y. if y > m then y else m) z ys \<in> insert z (set ys) \<and>
        (\<forall>y\<in>insert z (set ys). y \<le> foldl (\<lambda>m y. if y > m then y else m) z ys)" for z
  proof (induction ys arbitrary: z)
    case Nil
    then show ?case by simp
  next
    case (Cons y ys)
    from Cons[of "if y > z then y else z"] show ?case
      by (auto split: if_splits)
  qed
  with a Cons show ?thesis by auto
qed

lemma py_list_index_Inr:
  "py_list_index xs v = Inr k \<Longrightarrow>
     0 \<le> k \<and> nat k < length xs \<and> xs ! nat k = v \<and> (\<forall>p < nat k. xs ! p \<noteq> v)"
proof (induction xs arbitrary: k)
  case Nil
  then show ?case by simp
next
  case (Cons x xs)
  show ?case
  proof (cases "x = v")
    case True
    with Cons.prems show ?thesis by simp
  next
    case False
    with Cons.prems obtain k' where k': "py_list_index xs v = Inr k'" "k = k' + 1"
      by (auto split: sum.splits)
    from Cons.IH[OF k'(1)] k'(2) False show ?thesis
      by (auto simp: nat_add_distrib nth_Cons less_Suc_eq_0_disj split: nat.splits)
  qed
qed

lemma greedy_action_argmax:
  assumes "greedy_action ag (Some s) = Inr t"
  shows "\<exists>row. getitem (td_Q ag) s = Inr row \<and> 0 \<le> t \<and> nat t < length row \<and>
           (\<forall>p < length row. row ! p \<le> row ! nat t) \<and> (\<forall>p < nat t. row ! p < row ! nat t)"
proof -
  from assms obtain row where row: "getitem (td_Q ag) s = Inr row"
    by (cases "getitem (td_Q ag) s") (simp_all add: greedy_action_def getitem_opt_def)
  from assms row obtain m where m: "py_max row = Inr m"
    by (cases "py_max row") (simp_all add: greedy_action_def getitem_opt_def)
  from assms row m have ix: "py_list_index row m = Inr t"
    by (simp add: greedy_action_def getitem_opt_def)
  from py_list_index_Inr[OF ix] py_max_Inr[OF m] have
    "0 \<le> t" "nat t < length row" "row ! nat t = m" "\<forall>p < nat t. row ! p \<noteq> m" "\<forall>x\<in>set row. x \<le> m"
    by auto
  then have "(\<forall>p < length row. row ! p \<le> row ! nat t) \<and> (\<forall>p < nat t. row ! p < row ! nat t)"
    by (metis dual_order.strict_trans nth_mem order_less_le)
  with row \<open>0 \<le> t\<close> \<open>nat t < length row\<close> show ?thesis by blast
qed

text \<open>
  C4. The claim: with probability \<open>epsilon\<close> the action is drawn from the allowed actions
  of the queried state, else the greedy action of that state is returned. The code never
  passes the state to \<^verbatim>\<open>get_allowed_actions\<close>. Over an environment whose method takes the
  state, \<open>get_action\<close> raises TypeError on both branches (first draw 0, exploring, and
  first draw 0.5, greedy). Over an environment with a default for the state, the exploring
  call at state 0 returns action 1, which state 0 does not allow.
\<close>

theorem get_action_ignores_state:
  "TdLearner_get_action (learner0 mdp2 ''q_learning'' [[1], []]) 0 (const_rng 0) = Inl TypeError \<and>
   TdLearner_get_action (learner0 mdp2 ''q_learning'' [[1], []]) 0 (const_rng (1 / 2)) = Inl TypeError \<and>
   TdLearner_get_action (learner0 task_default ''q_learning'' [[1], [1, 1]]) 0 (rng2 0 (3 / 4)) =
     Inr (1, (learner0 task_default ''q_learning'' [[1], [1, 1]])\<lparr>td_s1 := Some 0, td_a1 := Some 1\<rparr>,
          const_rng (3 / 4)) \<and>
   1 \<notin> set (get_allowed_actions task_default 0)"
  by (simp add: TdLearner_get_action_def learner0_def mdp2_def task_default_def
      random_random_rng2 random_random_const random_choice_def getitem_def py_index_def py_int_def)

section \<open>TdLearner: learn\<close>

lemma learn_no_prev:
  "td_s0 ag = None \<Longrightarrow> TdLearner_learn ag reward = Inr (ag\<lparr>td_r := Some reward\<rparr>)"
  by (simp add: TdLearner_learn_def)

lemma td_update_eq:
  assumes "py_index (length (td_Q ag)) s = Inr i" "py_index (length (td_Q ag ! i)) a = Inr j"
     "getitem (td_Q ag) s' = Inr row1" "getitem row1 t = Inr q1"
  shows "TdLearner_td_update ag (Some s) (Some a) (Some rv) (Some s') (Some t) =
     Inr (ag\<lparr>td_Q := (td_Q ag)[i := (td_Q ag ! i)[j := td_Q ag ! i ! j + td_alpha ag * (rv + td_gamma ag * q1 - td_Q ag ! i ! j)]]\<rparr>)"
  using assms
  by (simp add: TdLearner_td_update_def getitem_opt_def setitem_opt_def getitem_def setitem_def Let_def)

lemma td_update_Inr:
  assumes "TdLearner_td_update ag s0 a0 r s1 t = Inr ag'"
  shows "\<exists>s a rv s' t' i j row1 q1. s0 = Some s \<and> a0 = Some a \<and> r = Some rv \<and> s1 = Some s' \<and> t = Some t'
     \<and> py_index (length (td_Q ag)) s = Inr i \<and> py_index (length (td_Q ag ! i)) a = Inr j
     \<and> getitem (td_Q ag) s' = Inr row1 \<and> getitem row1 t' = Inr q1
     \<and> ag' = ag\<lparr>td_Q := (td_Q ag)[i := (td_Q ag ! i)[j := td_Q ag ! i ! j + td_alpha ag * (rv + td_gamma ag * q1 - td_Q ag ! i ! j)]]\<rparr>"
proof -
  from assms obtain row1 where r1: "getitem_opt (td_Q ag) s1 = Inr row1"
    by (cases "getitem_opt (td_Q ag) s1") (simp_all add: TdLearner_td_update_def)
  from assms r1 obtain q1 where q1: "getitem_opt row1 t = Inr q1"
    by (cases "getitem_opt row1 t") (simp_all add: TdLearner_td_update_def)
  from assms r1 q1 obtain rv where rv: "r = Some rv"
    by (cases r) (simp_all add: TdLearner_td_update_def)
  from assms r1 q1 rv obtain row0 where r0: "getitem_opt (td_Q ag) s0 = Inr row0"
    by (cases "getitem_opt (td_Q ag) s0") (simp_all add: TdLearner_td_update_def)
  from assms r1 q1 rv r0 obtain q0 where q0: "getitem_opt row0 a0 = Inr q0"
    by (cases "getitem_opt row0 a0") (simp_all add: TdLearner_td_update_def)
  from r1 obtain s' where s': "s1 = Some s'" "getitem (td_Q ag) s' = Inr row1"
    by (auto simp: getitem_opt_Inr_iff)
  from q1 obtain t' where t': "t = Some t'" "getitem row1 t' = Inr q1"
    by (auto simp: getitem_opt_Inr_iff)
  from r0 obtain s i where s: "s0 = Some s" "py_index (length (td_Q ag)) s = Inr i" "row0 = td_Q ag ! i"
    by (auto simp: getitem_opt_Inr_iff getitem_Inr_iff)
  from q0 s obtain a j where a: "a0 = Some a" "py_index (length (td_Q ag ! i)) a = Inr j"
    by (auto simp: getitem_opt_Inr_iff getitem_Inr_iff)
  from assms td_update_eq[OF s(2) a(2) s'(2) t'(2), of rv] s' t' s a rv
  show ?thesis by auto
qed

lemma learn_Inr:
  assumes "TdLearner_learn ag reward = Inr ag'" "td_s0 ag = Some s"
  shows "\<exists>a rv s' t i j row1 q1. td_a0 ag = Some a \<and> td_r ag = Some rv \<and> td_s1 ag = Some s'
     \<and> (if td_update ag = ''q_learning'' then greedy_action ag (Some s') = Inr t
         else td_update ag = ''sarsa'' \<and> td_a1 ag = Some t)
     \<and> py_index (length (td_Q ag)) s = Inr i \<and> py_index (length (td_Q ag ! i)) a = Inr j
     \<and> getitem (td_Q ag) s' = Inr row1 \<and> getitem row1 t = Inr q1
     \<and> ag' = ag\<lparr>td_Q := (td_Q ag)[i := (td_Q ag ! i)[j := td_Q ag ! i ! j + td_alpha ag * (rv + td_gamma ag * q1 - td_Q ag ! i ! j)]],
                 td_r := Some reward\<rparr>"
proof -
  let ?target = "if td_update ag = ''q_learning'' then
                       (case greedy_action ag (td_s1 ag) of
                          Inl e \<Rightarrow> Inl e
                        | Inr a \<Rightarrow> Inr (Some a))
                     else if td_update ag = ''sarsa'' then Inr (td_a1 ag)
                     else Inl NotImplementedError"
  from assms obtain na where na: "?target = Inr na"
    by (cases ?target) (simp_all add: TdLearner_learn_def)
  from assms na obtain ag1 where up: "TdLearner_td_update ag (td_s0 ag) (td_a0 ag) (td_r ag) (td_s1 ag) na = Inr ag1"
    and ag': "ag' = ag1\<lparr>td_r := Some reward\<rparr>"
    by (cases "TdLearner_td_update ag (td_s0 ag) (td_a0 ag) (td_r ag) (td_s1 ag) na")
       (auto simp add: TdLearner_learn_def)
  from td_update_Inr[OF up] assms(2) obtain a rv s' t i j row1 q1 where
    f: "td_a0 ag = Some a" "td_r ag = Some rv" "td_s1 ag = Some s'" "na = Some t"
     "py_index (length (td_Q ag)) s = Inr i" "py_index (length (td_Q ag ! i)) a = Inr j"
     "getitem (td_Q ag) s' = Inr row1" "getitem row1 t = Inr q1"
     "ag1 = ag\<lparr>td_Q := (td_Q ag)[i := (td_Q ag ! i)[j := td_Q ag ! i ! j + td_alpha ag * (rv + td_gamma ag * q1 - td_Q ag ! i ! j)]]\<rparr>"
    by auto
  have "if td_update ag = ''q_learning'' then greedy_action ag (Some s') = Inr t
         else td_update ag = ''sarsa'' \<and> td_a1 ag = Some t"
    using na f(3,4) by (auto split: if_splits sum.splits)
  with f ag' show ?thesis by auto
qed

lemma store_reward_indep:
  "(case X of Inl e \<Rightarrow> Inl e | Inr a \<Rightarrow> Inr (a\<lparr>td_r := Some r1\<rparr>)) = Inr ag' \<Longrightarrow>
   (case X of Inl e \<Rightarrow> Inl e | Inr a \<Rightarrow> Inr (a\<lparr>td_r := Some r2\<rparr>)) = Inr (ag'\<lparr>td_r := Some r2\<rparr>)"
  by (cases X) auto

lemma learn_reward_indep:
  "TdLearner_learn ag r1 = Inr ag' \<Longrightarrow> TdLearner_learn ag r2 = Inr (ag'\<lparr>td_r := Some r2\<rparr>)"
  unfolding TdLearner_learn_def by (rule store_reward_indep)

text \<open>
  The backup as the method computes it, on any learner object that has a table. With a
  full buffer, a supported update rule and the indices in range, \<open>learn(reward)\<close> returns,
  having written \<open>Q[s0][a0] + alpha * (r + gamma * Q[s1][t] - Q[s0][a0])\<close> to \<open>Q[s0][a0]\<close>,
  where \<open>t\<close> is the result of \<open>_greedy_action(s1)\<close> for \<open>q_learning\<close> (the first position
  of the greatest entry of the row, by \<open>greedy_action_argmax\<close>) and the chosen action
  \<open>a1\<close> for \<open>sarsa\<close>, and \<open>r\<close> is the stored reward. No learner that \<open>__init__\<close> returns
  has such a table; see the last section.
\<close>

lemma learn_td_backup:
  assumes "td_s0 ag = Some s0" "td_a0 ag = Some a0" "td_r ag = Some r" "td_s1 ag = Some s1" "td_a1 ag = Some a1"
   and "td_update ag = ''q_learning'' \<or> td_update ag = ''sarsa''"
   and "(if td_update ag = ''q_learning'' then greedy_action ag (Some s1) else Inr a1) = Inr t"
   and "getitem (td_Q ag) s1 = Inr row1" "getitem row1 t = Inr q1"
   and "py_index (length (td_Q ag)) s0 = Inr i" "py_index (length (td_Q ag ! i)) a0 = Inr j"
  shows "TdLearner_learn ag reward = Inr (ag\<lparr>td_Q := (td_Q ag)[i := (td_Q ag ! i)[j := td_Q ag ! i ! j + td_alpha ag * (r + td_gamma ag * q1 - td_Q ag ! i ! j)]], td_r := Some reward\<rparr>)"
proof -
  have "TdLearner_learn ag reward =
     (case TdLearner_td_update ag (Some s0) (Some a0) (Some r) (Some s1) (Some t) of
        Inl e \<Rightarrow> Inl e | Inr ag' \<Rightarrow> Inr (ag'\<lparr>td_r := Some reward\<rparr>))"
    using assms(1-7) by (auto simp: TdLearner_learn_def split: if_splits)
  then show ?thesis
    by (simp add: td_update_eq[OF assms(10,11,8,9)])
qed

text \<open>
  In mid-stream, with the table \<open>[[1], [2, 3]]\<close> and action 0 chosen at state 1:
  \<open>q_learning\<close> bootstraps from the entry 3 of the greedy action 1, \<open>sarsa\<close> from the entry
  2 of the chosen action 0.
\<close>

lemma learn_td_backup_example:
  "TdLearner_learn (learner_mid ''q_learning'') 5 =
     Inr ((learner_mid ''q_learning'')\<lparr>td_Q := [[137 / 100], [2, 3]], td_r := Some 5\<rparr>) \<and>
   TdLearner_learn (learner_mid ''sarsa'') 5 =
     Inr ((learner_mid ''sarsa'')\<lparr>td_Q := [[32 / 25], [2, 3]], td_r := Some 5\<rparr>)"
proof -
  have q: "TdLearner_learn (learner_mid ''q_learning'') 5 =
     Inr ((learner_mid ''q_learning'')\<lparr>td_Q := (td_Q (learner_mid ''q_learning''))
        [0 := (td_Q (learner_mid ''q_learning'') ! 0)[0 := td_Q (learner_mid ''q_learning'') ! 0 ! 0 +
           td_alpha (learner_mid ''q_learning'') * (2 + td_gamma (learner_mid ''q_learning'') * 3 - td_Q (learner_mid ''q_learning'') ! 0 ! 0)]],
        td_r := Some 5\<rparr>)"
    by (rule learn_td_backup[where ?s0.0 = 0 and ?a0.0 = 0 and ?s1.0 = 1 and ?a1.0 = 0 and t = 1 and ?row1.0 = "[2, 3]"])
       (simp_all add: learner_mid_def learner0_def greedy_action_def getitem_opt_def getitem_def py_index_def)
  have s: "TdLearner_learn (learner_mid ''sarsa'') 5 =
     Inr ((learner_mid ''sarsa'')\<lparr>td_Q := (td_Q (learner_mid ''sarsa''))
        [0 := (td_Q (learner_mid ''sarsa'') ! 0)[0 := td_Q (learner_mid ''sarsa'') ! 0 ! 0 +
           td_alpha (learner_mid ''sarsa'') * (2 + td_gamma (learner_mid ''sarsa'') * 2 - td_Q (learner_mid ''sarsa'') ! 0 ! 0)]],
        td_r := Some 5\<rparr>)"
    by (rule learn_td_backup[where ?s0.0 = 0 and ?a0.0 = 0 and ?s1.0 = 1 and ?a1.0 = 0 and t = 0 and ?row1.0 = "[2, 3]"])
       (simp_all add: learner_mid_def learner0_def greedy_action_def getitem_opt_def getitem_def py_index_def)
  have vq: "(td_Q (learner_mid ''q_learning''))
        [0 := (td_Q (learner_mid ''q_learning'') ! 0)[0 := td_Q (learner_mid ''q_learning'') ! 0 ! 0 +
           td_alpha (learner_mid ''q_learning'') * (2 + td_gamma (learner_mid ''q_learning'') * 3 - td_Q (learner_mid ''q_learning'') ! 0 ! 0)]]
       = [[137 / 100], [2, 3]]"
    by (simp add: learner_mid_def learner0_def task_default_def)
  have vs: "(td_Q (learner_mid ''sarsa''))
        [0 := (td_Q (learner_mid ''sarsa'') ! 0)[0 := td_Q (learner_mid ''sarsa'') ! 0 ! 0 +
           td_alpha (learner_mid ''sarsa'') * (2 + td_gamma (learner_mid ''sarsa'') * 2 - td_Q (learner_mid ''sarsa'') ! 0 ! 0)]]
       = [[32 / 25], [2, 3]]"
    by (simp add: learner_mid_def learner0_def task_default_def)
  show ?thesis
    by (rule conjI[OF q[unfolded vq] s[unfolded vs]])
qed

text \<open>
  C10. A call of \<open>learn\<close> that returns changes nothing but the slot \<open>r\<close> and the table; with
  no previous state the table is unchanged; with a previous state the table differs from
  the old one at most in the entry \<open>Q[s0][a0]\<close>. (A call that raises has written nothing
  when it raises, which the model renders by returning the exception alone.)
\<close>

theorem learn_frame:
  assumes "TdLearner_learn ag reward = Inr ag'"
  shows "ag' = ag\<lparr>td_Q := td_Q ag', td_r := Some reward\<rparr> \<and>
         (td_s0 ag = None \<longrightarrow> td_Q ag' = td_Q ag) \<and>
         (\<forall>s. td_s0 ag = Some s \<longrightarrow>
            (\<exists>a i j v. td_a0 ag = Some a \<and> py_index (length (td_Q ag)) s = Inr i \<and>
               py_index (length (td_Q ag ! i)) a = Inr j \<and>
               td_Q ag' = (td_Q ag)[i := (td_Q ag ! i)[j := v]]))"
proof (cases "td_s0 ag")
  case None
  with assms learn_no_prev[OF None, of reward] show ?thesis by auto
next
  case (Some s)
  from learn_Inr[OF assms Some] obtain a rv s' t i j row1 q1 where
    f: "td_a0 ag = Some a" 
     "py_index (length (td_Q ag)) s = Inr i" "py_index (length (td_Q ag ! i)) a = Inr j"
     "ag' = ag\<lparr>td_Q := (td_Q ag)[i := (td_Q ag ! i)[j := td_Q ag ! i ! j + td_alpha ag * (rv + td_gamma ag * q1 - td_Q ag ! i ! j)]],
                 td_r := Some reward\<rparr>"
    by blast
  from f(4) have c1: "ag' = ag\<lparr>td_Q := td_Q ag', td_r := Some reward\<rparr>" by simp
  from f(4) have "td_Q ag' = (td_Q ag)[i := (td_Q ag ! i)[j := td_Q ag ! i ! j + td_alpha ag * (rv + td_gamma ag * q1 - td_Q ag ! i ! j)]]"
    by simp
  with f(1-3) have c3: "\<exists>a i j v. td_a0 ag = Some a \<and> py_index (length (td_Q ag)) s = Inr i \<and>
               py_index (length (td_Q ag ! i)) a = Inr j \<and>
               td_Q ag' = (td_Q ag)[i := (td_Q ag ! i)[j := v]]"
    by blast
  show ?thesis
  proof (intro conjI impI allI)
    show "ag' = ag\<lparr>td_Q := td_Q ag', td_r := Some reward\<rparr>" by (rule c1)
  next
    assume "td_s0 ag = None"
    with Some show "td_Q ag' = td_Q ag" by simp
  next
    fix s2 assume "td_s0 ag = Some s2"
    with Some have "s2 = s" by simp
    with c3 show "\<exists>a i j v. td_a0 ag = Some a \<and> py_index (length (td_Q ag)) s2 = Inr i \<and>
               py_index (length (td_Q ag ! i)) a = Inr j \<and>
               td_Q ag' = (td_Q ag)[i := (td_Q ag ! i)[j := v]]" by simp
  qed
qed

text \<open>
  The two cases on the call sequence of \<open>lag0\<close>: the first \<open>learn\<close>, with no previous
  state, and the second, which writes the entry of state 0 and action 0.
\<close>

theorem learn_frame_witness:
  "TdLearner_learn lag1 2 = Inr lag2 \<and> td_s0 lag1 = None \<and> td_Q lag2 = td_Q lag1 \<and>
   lag2 = lag1\<lparr>td_Q := td_Q lag2, td_r := Some 2\<rparr> \<and>
   TdLearner_learn lag3 5 = Inr lag4 \<and> td_s0 lag3 = Some 0 \<and>
   lag4 = lag3\<lparr>td_Q := td_Q lag4, td_r := Some 5\<rparr> \<and>
   (\<exists>a i j v. td_a0 lag3 = Some a \<and> py_index (length (td_Q lag3)) 0 = Inr i \<and>
       py_index (length (td_Q lag3 ! i)) a = Inr j \<and>
       td_Q lag4 = (td_Q lag3)[i := (td_Q lag3 ! i)[j := v]])"
proof -
  have h1: "TdLearner_learn lag1 2 = Inr lag2"
    by (simp add: TdLearner_learn_def lag0_def lag1_def lag2_def learner0_def)
  have n1: "td_s0 lag1 = None"
    by (simp add: lag0_def lag1_def learner0_def)
  have h2: "TdLearner_learn lag3 5 = Inr lag4"
    by (simp add: TdLearner_learn_def TdLearner_td_update_def lag0_def lag1_def lag2_def lag3_def
        lag4_def learner0_def task_default_def greedy_action_def getitem_opt_def setitem_opt_def
        getitem_def setitem_def py_index_def)
  have n2: "td_s0 lag3 = Some 0"
    by (simp add: lag3_def)
  note f1 = learn_frame[OF h1]
  note f2 = learn_frame[OF h2]
  have a1: "td_Q lag2 = td_Q lag1"
    by (rule mp[OF f1[THEN conjunct2, THEN conjunct1] n1])
  have b1: "\<exists>a i j v. td_a0 lag3 = Some a \<and> py_index (length (td_Q lag3)) 0 = Inr i \<and>
       py_index (length (td_Q lag3 ! i)) a = Inr j \<and>
       td_Q lag4 = (td_Q lag3)[i := (td_Q lag3 ! i)[j := v]]"
    by (rule mp[OF spec[OF f2[THEN conjunct2, THEN conjunct2]] n2])
  show ?thesis
    by (rule conjI[OF h1 conjI[OF n1 conjI[OF a1 conjI[OF f1[THEN conjunct1]
          conjI[OF h2 conjI[OF n2 conjI[OF f2[THEN conjunct1] b1]]]]]]])
qed

text \<open>
  The lag as the methods compute it, on any learner object with an empty buffer. After
  \<open>get_action(sA)\<close>, \<open>learn(rA)\<close>, \<open>get_action(sB)\<close>, \<open>learn(rB)\<close>, all returning: the
  first \<open>learn\<close> leaves the table alone, the second writes \<open>Q[sA][aA]\<close> from the reward
  \<open>rA\<close> of the first call, stores \<open>rB\<close>, and would have written the same table for any
  other reward \<open>r'\<close> in place of \<open>rB\<close>. The four calls return for no learner that
  \<open>__init__\<close> returns; see the last section.
\<close>

lemma td_update_lag:
  assumes "fresh ag"
    and "TdLearner_get_action ag sA g = Inr (aA, ag1, g1)"
    and "TdLearner_learn ag1 rA = Inr ag2"
    and "TdLearner_get_action ag2 sB g1 = Inr (aB, ag3, g2)"
    and "TdLearner_learn ag3 rB = Inr ag4"
  shows "td_Q ag2 = td_Q ag \<and> td_r ag4 = Some rB \<and>
    (\<exists>i j t row1 q1.
        py_index (length (td_Q ag)) sA = Inr i \<and> py_index (length (td_Q ag ! i)) aA = Inr j \<and>
        (if td_update ag = ''q_learning'' then greedy_action ag (Some sB) = Inr t else t = aB) \<and>
        getitem (td_Q ag) sB = Inr row1 \<and> getitem row1 t = Inr q1 \<and>
        td_Q ag4 = (td_Q ag)[i := (td_Q ag ! i)[j := td_Q ag ! i ! j +
                      td_alpha ag * (rA + td_gamma ag * q1 - td_Q ag ! i ! j)]] \<and>
        TdLearner_learn ag3 r' = Inr (ag4\<lparr>td_r := Some r'\<rparr>))"
proof -
  from assms(1) have s1: "td_s1 ag = None" by (simp add: fresh_def)
  have ag1: "ag1 = ag\<lparr>td_s0 := td_s1 ag, td_a0 := td_a1 ag, td_s1 := Some sA, td_a1 := Some aA\<rparr>"
    by (rule get_action_Inr[OF assms(2)])
  then have "td_s0 ag1 = None" using s1 by simp
  from learn_no_prev[OF this, of rA] assms(3) have ag2: "ag2 = ag1\<lparr>td_r := Some rA\<rparr>" by simp
  have ag3: "ag3 = ag2\<lparr>td_s0 := td_s1 ag2, td_a0 := td_a1 ag2, td_s1 := Some sB, td_a1 := Some aB\<rparr>"
    by (rule get_action_Inr[OF assms(4)])
  have flds: "td_Q ag3 = td_Q ag" "td_s0 ag3 = Some sA" "td_a0 ag3 = Some aA" "td_r ag3 = Some rA"
     "td_s1 ag3 = Some sB" "td_a1 ag3 = Some aB" "td_update ag3 = td_update ag"
     "td_alpha ag3 = td_alpha ag" "td_gamma ag3 = td_gamma ag" "td_Q ag2 = td_Q ag"
    by (simp_all add: ag1 ag2 ag3)
  from learn_Inr[OF assms(5) flds(2)] obtain a rv s' t i j row1 q1 where
    f: "td_a0 ag3 = Some a" "td_r ag3 = Some rv" "td_s1 ag3 = Some s'"
       "if td_update ag3 = ''q_learning'' then greedy_action ag3 (Some s') = Inr t
         else td_update ag3 = ''sarsa'' \<and> td_a1 ag3 = Some t"
       "py_index (length (td_Q ag3)) sA = Inr i" "py_index (length (td_Q ag3 ! i)) a = Inr j"
       "getitem (td_Q ag3) s' = Inr row1" "getitem row1 t = Inr q1"
       "ag4 = ag3\<lparr>td_Q := (td_Q ag3)[i := (td_Q ag3 ! i)[j := td_Q ag3 ! i ! j + td_alpha ag3 * (rv + td_gamma ag3 * q1 - td_Q ag3 ! i ! j)]],
                 td_r := Some rB\<rparr>"
    by blast
  from f(1-3) flds have eqs: "a = aA" "rv = rA" "s' = sB" by simp_all
  have tgt: "if td_update ag = ''q_learning'' then greedy_action ag (Some sB) = Inr t else t = aB"
    using f(4) flds eqs greedy_action_cong[OF flds(1), of "Some sB"] by (auto split: if_splits)
  have again: "TdLearner_learn ag3 r' = Inr (ag4\<lparr>td_r := Some r'\<rparr>)"
    by (rule learn_reward_indep[OF assms(5)])
  from f(9) have "td_r ag4 = Some rB" by simp
  moreover from f(9) have "td_Q ag4 = (td_Q ag)[i := (td_Q ag ! i)[j := td_Q ag ! i ! j +
                      td_alpha ag * (rA + td_gamma ag * q1 - td_Q ag ! i ! j)]]"
    using flds eqs by simp
  ultimately show ?thesis
    using flds(10) f(5-8) eqs flds(1) tgt again by auto
qed

text \<open>
  The sequence on the object \<open>lag0\<close> with the states 0 and 1 and the rewards 2 and 5: the entry of
  state 0 and action 0 becomes \<open>1 + 0.1 * (2 + 0.9 * 1 - 1) = 1.19\<close>, from the reward 2.
\<close>

lemma td_update_lag_example:
  "fresh lag0 \<and>
   TdLearner_get_action lag0 0 (const_rng (1 / 2)) = Inr (0, lag1, const_rng (1 / 2)) \<and>
   TdLearner_learn lag1 2 = Inr lag2 \<and>
   TdLearner_get_action lag2 1 (const_rng (1 / 2)) = Inr (0, lag3, const_rng (1 / 2)) \<and>
   TdLearner_learn lag3 5 = Inr lag4 \<and>
   (td_Q lag2 = td_Q lag0 \<and> td_r lag4 = Some 5 \<and>
    (\<exists>i j t row1 q1.
        py_index (length (td_Q lag0)) 0 = Inr i \<and> py_index (length (td_Q lag0 ! i)) 0 = Inr j \<and>
        (if td_update lag0 = ''q_learning'' then greedy_action lag0 (Some 1) = Inr t else t = 0) \<and>
        getitem (td_Q lag0) 1 = Inr row1 \<and> getitem row1 t = Inr q1 \<and>
        td_Q lag4 = (td_Q lag0)[i := (td_Q lag0 ! i)[j := td_Q lag0 ! i ! j +
                      td_alpha lag0 * (2 + td_gamma lag0 * q1 - td_Q lag0 ! i ! j)]] \<and>
        TdLearner_learn lag3 7 = Inr (lag4\<lparr>td_r := Some 7\<rparr>)))"
proof -
  have h1: "fresh lag0"
    by (simp add: fresh_def lag0_def learner0_def)
  have h2: "TdLearner_get_action lag0 0 (const_rng (1 / 2)) = Inr (0, lag1, const_rng (1 / 2))"
    by (simp add: TdLearner_get_action_def lag0_def lag1_def learner0_def task_default_def
        random_random_const greedy_action_def getitem_opt_def getitem_def py_index_def)
  have h3: "TdLearner_learn lag1 2 = Inr lag2"
    by (simp add: TdLearner_learn_def lag0_def lag1_def lag2_def learner0_def)
  have h4: "TdLearner_get_action lag2 1 (const_rng (1 / 2)) = Inr (0, lag3, const_rng (1 / 2))"
    by (simp add: TdLearner_get_action_def lag0_def lag1_def lag2_def lag3_def learner0_def
        task_default_def random_random_const greedy_action_def getitem_opt_def getitem_def
        py_index_def)
  have h5: "TdLearner_learn lag3 5 = Inr lag4"
    by (simp add: TdLearner_learn_def TdLearner_td_update_def lag0_def lag1_def lag2_def lag3_def
        lag4_def learner0_def task_default_def greedy_action_def getitem_opt_def setitem_opt_def
        getitem_def setitem_def py_index_def)
  show ?thesis
    by (rule conjI[OF h1 conjI[OF h2 conjI[OF h3 conjI[OF h4 conjI[OF h5
          td_update_lag[OF h1 h2 h3 h4 h5, where r' = 7]]]]]])
qed

section \<open>TdLearner: the learners that construction returns\<close>


lemma init_empty_table:
  assumes "TdLearner_init task update epsilon alpha = Inr ag"
  shows "td_Q ag = [] \<and> get_num_states task \<le> 0"
proof (cases "xrange (get_num_states task)")
  case Nil
  then have "get_num_states task \<le> 0" by (simp add: xrange_def)
  with assms Nil show ?thesis
    by (auto simp: TdLearner_init_def split: if_splits)
next
  case (Cons s ss)
  with assms show ?thesis
    by (auto simp: TdLearner_init_def xrange_obj_def split: if_splits)
qed

lemma py_index_empty: "py_index 0 i = Inl IndexError"
  by (simp add: py_index_def)

text \<open>
  On the empty table, \<open>learn\<close> returns only when there is no previous state, and leaves the
  table empty; with a previous state it raises at the first lookup in the table.
\<close>

lemma learn_empty_table:
  assumes "td_Q ag = []" and "TdLearner_learn ag reward = Inr ag'"
  shows "td_s0 ag = None \<and> td_Q ag' = []"
proof (cases "td_s0 ag")
  case None
  from learn_no_prev[OF None, of reward] assms(2) have "ag' = ag\<lparr>td_r := Some reward\<rparr>" by simp
  with assms(1) None show ?thesis by simp
next
  case (Some s)
  from learn_Inr[OF assms(2) Some] obtain i where "py_index (length (td_Q ag)) s = Inr i"
    by blast
  with assms(1) show ?thesis by (simp add: py_index_empty)
qed

lemma learn_empty_table_raises:
  assumes "td_Q ag = []" and "td_s0 ag = Some s"
  shows "isl (TdLearner_learn ag reward)"
proof (cases "TdLearner_learn ag reward")
  case (Inl e)
  then show ?thesis by simp
next
  case (Inr ag')
  from learn_empty_table[OF assms(1) Inr] assms(2) show ?thesis by simp
qed

text \<open>
  So for every environment, every update rule, all states, rewards and random draws: after
  construction, \<open>get_action\<close>, \<open>learn\<close> and \<open>get_action\<close>, the second \<open>learn\<close> raises. No
  learner that the code builds ever performs a backup.
\<close>

lemma constructed_never_updates:
  assumes "TdLearner_init task update epsilon alpha = Inr ag0"
    and "TdLearner_get_action ag0 sA g = Inr (aA, ag1, g1)"
    and "TdLearner_learn ag1 rA = Inr ag2"
    and "TdLearner_get_action ag2 sB g1 = Inr (aB, ag3, g2)"
  shows "isl (TdLearner_learn ag3 rB)"
proof -
  from init_empty_table[OF assms(1)] have q0: "td_Q ag0 = []" by simp
  from get_action_Inr[OF assms(2)] q0 have q1: "td_Q ag1 = []" "td_s1 ag1 = Some sA" by simp_all
  from learn_empty_table[OF q1(1) assms(3)] have n: "td_s0 ag1 = None" and q2: "td_Q ag2 = []"
    by simp_all
  from learn_no_prev[OF n, of rA] assms(3) q1(2) have s2: "td_s1 ag2 = Some sA" by auto
  from get_action_Inr[OF assms(4)] q2 s2 have "td_Q ag3 = []" "td_s0 ag3 = Some sA" by simp_all
  then show ?thesis by (rule learn_empty_table_raises)
qed



end
